theory Spec2Isabelle
  imports Main
begin

section \<open>JavaScript values\<close>

text \<open>
  The helper module \<^verbatim>\<open>api-helper.js\<close> moves plain data between its callers and the
  backend: request payloads, parsed response bodies and optional arguments. A value of
  \<open>jsval\<close> is one such datum. \<open>JUndefined\<close> is also what a parameter holds when the
  caller leaves the argument out. \<open>JObj kvs\<close> is a plain object, \<open>kvs\<close> listing its own
  properties in the order in which the engine enumerates them.

  \<open>JNum n\<close> is the number with the integer value \<open>n\<close>, for \<open>n\<close> from \<open>- 2 ^ 53\<close> to
  \<open>2 ^ 53\<close>: there every integer is a number of the engine, and the engine writes all
  its digits, as \<open>show_int\<close> does. Outside that range the engine rounds and shortens the
  digits, so a larger \<open>n\<close> stands for no number of the engine; fractions, \<^verbatim>\<open>NaN\<close>, the
  infinities and the negative zero have no term. The module does no arithmetic, and the
  only number it writes itself is the default \<open>0\<close> of \<open>extra_hours\<close>. A string is a list
  of 8-bit characters.
\<close>

datatype jsval =
    JUndefined
  | JNull
  | JBool bool
  | JNum int
  | JStr string
  | JArr "jsval list"
  | JObj "(string \<times> jsval) list"

text \<open>The conversion to a boolean that \<^verbatim>\<open>if (v)\<close>, \<^verbatim>\<open>v ? a : b\<close> and \<^verbatim>\<open>v || w\<close> apply.\<close>

fun truthy :: "jsval \<Rightarrow> bool" where
  "truthy JUndefined = False"
| "truthy JNull = False"
| "truthy (JBool b) = b"
| "truthy (JNum n) = (n \<noteq> 0)"
| "truthy (JStr s) = (s \<noteq> [])"
| "truthy (JArr xs) = True"
| "truthy (JObj kvs) = True"

text \<open>
  What the module's code can throw or reject with: \<open>Error msg\<close> is \<^verbatim>\<open>new Error(msg)\<close>,
  \<open>TypeError\<close> is the engine's own error (its message differs between engines), and
  \<open>Rejected why\<close> is whatever the identity provider, \<^verbatim>\<open>fetch\<close> or \<^verbatim>\<open>res.json()\<close>
  fail with.
\<close>

datatype exn = Error string | TypeError | Rejected string

subsection \<open>Conversion to a string\<close>

definition digit_char :: "nat \<Rightarrow> char" where
  "digit_char d = ''0123456789abcdef'' ! d"

function show_nat :: "nat \<Rightarrow> string" where
  "show_nat n = (if n < 10 then [digit_char n] else show_nat (n div 10) @ [digit_char (n mod 10)])"
  by pat_completeness auto
termination
  by (relation "measure (\<lambda>n. n)") auto

definition show_int :: "int \<Rightarrow> string" where
  "show_int i = (if i < 0 then CHR ''-'' # show_nat (nat (- i)) else show_nat (nat i))"

text \<open>Joining the pieces of a list with a separator, as \<^verbatim>\<open>Array.prototype.join\<close> does.\<close>

fun join :: "string \<Rightarrow> string list \<Rightarrow> string" where
  "join sep [] = []"
| "join sep [s] = s"
| "join sep (s # t # ts) = s @ sep @ join sep (t # ts)"

text \<open>
  \<open>to_string\<close> is the conversion that \<^verbatim>\<open>new Error(v)\<close> applies to its argument. An
  array joins the conversions of its elements with commas, an \<^verbatim>\<open>undefined\<close> or
  \<^verbatim>\<open>null\<close> element giving the empty string. A plain object inherits
  \<^verbatim>\<open>Object.prototype.toString\<close>; when it has an own property \<^verbatim>\<open>toString\<close> (which,
  being data, cannot be called) the conversion throws a TypeError.
\<close>

fun to_string :: "jsval \<Rightarrow> exn + string"
  and to_strings :: "jsval list \<Rightarrow> exn + string list" where
  "to_string JUndefined = Inr ''undefined''"
| "to_string JNull = Inr ''null''"
| "to_string (JBool b) = Inr (if b then ''true'' else ''false'')"
| "to_string (JNum n) = Inr (show_int n)"
| "to_string (JStr s) = Inr s"
| "to_string (JArr xs) =
     (case to_strings xs of Inl e \<Rightarrow> Inl e | Inr ss \<Rightarrow> Inr (join '','' ss))"
| "to_string (JObj kvs) =
     (if ''toString'' \<in> fst ` set kvs then Inl TypeError else Inr ''[object Object]'')"
| "to_strings [] = Inr []"
| "to_strings (x # xs) =
     (case (if x = JUndefined \<or> x = JNull then Inr [] else to_string x) of
        Inl e \<Rightarrow> Inl e
      | Inr s \<Rightarrow> (case to_strings xs of Inl e \<Rightarrow> Inl e | Inr ss \<Rightarrow> Inr (s # ss)))"

subsection \<open>JSON.stringify\<close>

text \<open>
  A string is written between double quotes; the double quote, the backslash and the
  control characters below U+0020 are escaped.
\<close>

definition escape_char :: "char \<Rightarrow> string" where
  "escape_char c =
     (if c = CHR 0x22 then [CHR 0x5C, CHR 0x22]
      else if c = CHR 0x5C then [CHR 0x5C, CHR 0x5C]
      else if c = CHR 0x08 then [CHR 0x5C, CHR ''b'']
      else if c = CHR 0x09 then [CHR 0x5C, CHR ''t'']
      else if c = CHR 0x0A then [CHR 0x5C, CHR ''n'']
      else if c = CHR 0x0C then [CHR 0x5C, CHR ''f'']
      else if c = CHR 0x0D then [CHR 0x5C, CHR ''r'']
      else if (of_char c :: nat) < 32
        then [CHR 0x5C, CHR ''u'', CHR ''0'', CHR ''0'',
              digit_char (of_char c div 16), digit_char (of_char c mod 16)]
      else [c])"

definition quote :: "string \<Rightarrow> string" where
  "quote s = CHR 0x22 # concat (map escape_char s) @ [CHR 0x22]"

text \<open>
  \<open>JSON_stringify v\<close> is \<^verbatim>\<open>JSON.stringify(v)\<close>; \<open>None\<close> is the result \<^verbatim>\<open>undefined\<close>.
  An \<^verbatim>\<open>undefined\<close> element of an array is written \<^verbatim>\<open>null\<close>, an \<^verbatim>\<open>undefined\<close> property
  of an object is left out.
\<close>

fun JSON_stringify :: "jsval \<Rightarrow> string option"
  and stringify_elements :: "jsval list \<Rightarrow> string list"
  and stringify_properties :: "(string \<times> jsval) list \<Rightarrow> string list" where
  "JSON_stringify JUndefined = None"
| "JSON_stringify JNull = Some ''null''"
| "JSON_stringify (JBool b) = Some (if b then ''true'' else ''false'')"
| "JSON_stringify (JNum n) = Some (show_int n)"
| "JSON_stringify (JStr s) = Some (quote s)"
| "JSON_stringify (JArr xs) = Some (''['' @ join '','' (stringify_elements xs) @ '']'')"
| "JSON_stringify (JObj kvs) = Some (''{'' @ join '','' (stringify_properties kvs) @ ''}'')"
| "stringify_elements [] = []"
| "stringify_elements (x # xs) =
     (case JSON_stringify x of None \<Rightarrow> ''null'' | Some s \<Rightarrow> s) # stringify_elements xs"
| "stringify_properties [] = []"
| "stringify_properties ((k, v) # kvs) =
     (case JSON_stringify v of
        None \<Rightarrow> stringify_properties kvs
      | Some s \<Rightarrow> (quote k @ '':'' @ s) # stringify_properties kvs)"

section \<open>The environment of the module\<close>

text \<open>
  A request is what \<^verbatim>\<open>fetch(url, options)\<close> receives: the address and the three fields
  of \<^verbatim>\<open>options\<close>. \<open>req_body = None\<close> is an \<^verbatim>\<open>options\<close> object with no \<^verbatim>\<open>body\<close>.
\<close>

record request =
  req_url :: string
  req_method :: string
  req_headers :: "(string \<times> string) list"
  req_body :: "string option"

text \<open>
  Of a response the module reads \<^verbatim>\<open>res.ok\<close> and \<^verbatim>\<open>res.json()\<close>. The Fetch standard
  defines \<^verbatim>\<open>ok\<close> as a status from 200 to 299; \<open>res_json\<close> is the outcome of parsing the
  body, a rejection when the body is not JSON.
\<close>

record response =
  res_status :: nat
  res_json :: "exn + jsval"

definition ok :: "response \<Rightarrow> bool" where
  "ok res = (200 \<le> res_status res \<and> res_status res \<le> 299)"

record user =
  getIdToken :: "exn + string"

text \<open>
  The ambient state the module reads: the build-time variable \<^verbatim>\<open>VITE_API_URL\<close>, the
  identity provider's \<^verbatim>\<open>auth.currentUser\<close> (\<open>None\<close> when nobody is signed in) and the
  network, a function from the request to what \<^verbatim>\<open>fetch\<close> settles with.
\<close>

record env =
  VITE_API_URL :: "string option"
  currentUser :: "user option"
  fetch :: "request \<Rightarrow> exn + response"

text \<open>
  An asynchronous call settles with a value or an error; next to it the model keeps the
  list of the requests the call handed to \<^verbatim>\<open>fetch\<close>, in order.
\<close>

type_synonym outcome = "(exn + jsval) \<times> request list"

section \<open>The module\<close>

definition API_URL :: "env \<Rightarrow> string" where
  "API_URL env =
     (case VITE_API_URL env of
        Some u \<Rightarrow> if u \<noteq> [] then u else ''http://localhost:8000''
      | None \<Rightarrow> ''http://localhost:8000'')"

definition getToken :: "env \<Rightarrow> exn + string" where
  "getToken env =
     (case currentUser env of
        None \<Rightarrow> Inl (Error ''Not authenticated'')
      | Some u \<Rightarrow> getIdToken u)"

text \<open>
  \<^verbatim>\<open>data.detail\<close>: reading a property of \<^verbatim>\<open>null\<close> or \<^verbatim>\<open>undefined\<close> throws; a primitive or
  an array has no property of that name.
\<close>

fun get_detail :: "jsval \<Rightarrow> exn + jsval" where
  "get_detail JUndefined = Inl TypeError"
| "get_detail JNull = Inl TypeError"
| "get_detail (JObj kvs) =
     (case map_of kvs ''detail'' of None \<Rightarrow> Inr JUndefined | Some v \<Rightarrow> Inr v)"
| "get_detail v = Inr JUndefined"

text \<open>\<^verbatim>\<open>throw new Error(data.detail || 'API error')\<close>\<close>

definition api_error :: "jsval \<Rightarrow> exn" where
  "api_error data =
     (case get_detail data of
        Inl e \<Rightarrow> e
      | Inr detail \<Rightarrow>
          (case to_string (if truthy detail then detail else JStr ''API error'') of
             Inl e \<Rightarrow> e
           | Inr msg \<Rightarrow> Error msg))"

definition apiCall :: "env \<Rightarrow> string \<Rightarrow> string \<Rightarrow> jsval \<Rightarrow> outcome" where
  "apiCall env method endpoint body0 =
     (let body = (if body0 = JUndefined then JNull else body0) in
      (case getToken env of
         Inl e \<Rightarrow> (Inl e, [])
       | Inr token \<Rightarrow>
          (let options = \<lparr> req_url = API_URL env @ endpoint,
                           req_method = method,
                           req_headers = [(''Content-Type'', ''application/json''),
                                          (''Authorization'', ''Bearer '' @ token)],
                           req_body = (if truthy body then JSON_stringify body else None) \<rparr>
           in (case fetch env options of
                 Inl e \<Rightarrow> (Inl e, [options])
               | Inr res \<Rightarrow>
                  (case res_json res of
                     Inl e \<Rightarrow> (Inl e, [options])
                   | Inr data \<Rightarrow>
                       if \<not> ok res then (Inl (api_error data), [options])
                       else (Inr data, [options]))))))"

subsection \<open>The exported operations\<close>

text \<open>
  Each wrapper is the source's one-line function. A parameter that goes into the path
  (\<open>uid\<close>, \<open>leaveId\<close>, \<open>otId\<close>, \<open>reportId\<close>) is a string; the optional \<open>date\<close> is a
  string or absent (\<open>None\<close>: left out, \<^verbatim>\<open>undefined\<close> or \<^verbatim>\<open>null\<close>); a parameter that goes
  into the body is any value. A wrapper that gives \<^verbatim>\<open>apiCall\<close> two arguments leaves
  \<open>body\<close> \<^verbatim>\<open>undefined\<close>.
\<close>

definition verifyToken :: "env \<Rightarrow> outcome" where
  "verifyToken env = apiCall env ''POST'' ''/auth/verify'' JUndefined"

definition timeIn :: "env \<Rightarrow> jsval \<Rightarrow> jsval \<Rightarrow> outcome" where
  "timeIn env time_in status =
     apiCall env ''POST'' ''/attendance/time-in''
       (JObj [(''time_in'', time_in), (''status'', status)])"

definition timeOut :: "env \<Rightarrow> jsval \<Rightarrow> jsval \<Rightarrow> jsval \<Rightarrow> outcome" where
  "timeOut env time_out total_hours extra_hours0 =
     (let extra_hours = (if extra_hours0 = JUndefined then JNum 0 else extra_hours0) in
      apiCall env ''POST'' ''/attendance/time-out''
        (JObj [(''time_out'', time_out), (''total_hours'', total_hours),
               (''extra_hours'', extra_hours)]))"

definition getMyAttendance :: "env \<Rightarrow> outcome" where
  "getMyAttendance env = apiCall env ''GET'' ''/attendance/me'' JUndefined"

definition getAllAttendance :: "env \<Rightarrow> string option \<Rightarrow> outcome" where
  "getAllAttendance env date =
     apiCall env ''GET''
       (''/attendance/all'' @
          (case date of
             None \<Rightarrow> []
           | Some d \<Rightarrow> if truthy (JStr d) then ''?date='' @ d else []))
       JUndefined"

definition bulkTimeOut :: "env \<Rightarrow> jsval \<Rightarrow> jsval \<Rightarrow> outcome" where
  "bulkTimeOut env date employee_uids =
     apiCall env ''POST'' ''/attendance/bulk-timeout''
       (JObj [(''date'', date), (''employee_uids'', employee_uids)])"

definition fileLeave :: "env \<Rightarrow> jsval \<Rightarrow> jsval \<Rightarrow> jsval \<Rightarrow> jsval \<Rightarrow> outcome" where
  "fileLeave env type start_date end_date reason =
     apiCall env ''POST'' ''/leave''
       (JObj [(''type'', type), (''start_date'', start_date), (''end_date'', end_date),
              (''reason'', reason)])"

definition getMyLeave :: "env \<Rightarrow> outcome" where
  "getMyLeave env = apiCall env ''GET'' ''/leave/me'' JUndefined"

definition getAllLeave :: "env \<Rightarrow> outcome" where
  "getAllLeave env = apiCall env ''GET'' ''/leave/all'' JUndefined"

definition updateLeaveStatus :: "env \<Rightarrow> string \<Rightarrow> string \<Rightarrow> jsval \<Rightarrow> outcome" where
  "updateLeaveStatus env uid leaveId status =
     apiCall env ''PUT'' (''/leave/'' @ uid @ ''/'' @ leaveId @ ''/status'')
       (JObj [(''status'', status)])"

definition fileOvertime :: "env \<Rightarrow> jsval \<Rightarrow> jsval \<Rightarrow> jsval \<Rightarrow> outcome" where
  "fileOvertime env date hours reason =
     apiCall env ''POST'' ''/overtime''
       (JObj [(''date'', date), (''hours'', hours), (''reason'', reason)])"

definition getMyOvertime :: "env \<Rightarrow> outcome" where
  "getMyOvertime env = apiCall env ''GET'' ''/overtime/me'' JUndefined"

definition getAllOvertime :: "env \<Rightarrow> outcome" where
  "getAllOvertime env = apiCall env ''GET'' ''/overtime/all'' JUndefined"

definition updateOTStatus :: "env \<Rightarrow> string \<Rightarrow> string \<Rightarrow> jsval \<Rightarrow> outcome" where
  "updateOTStatus env uid otId status =
     apiCall env ''PUT'' (''/overtime/'' @ uid @ ''/'' @ otId @ ''/status'')
       (JObj [(''status'', status)])"

definition submitReport :: "env \<Rightarrow> jsval \<Rightarrow> jsval \<Rightarrow> jsval \<Rightarrow> outcome" where
  "submitReport env week_start week_end summary =
     apiCall env ''POST'' ''/reports''
       (JObj [(''week_start'', week_start), (''week_end'', week_end), (''summary'', summary)])"

definition getMyReports :: "env \<Rightarrow> outcome" where
  "getMyReports env = apiCall env ''GET'' ''/reports/me'' JUndefined"

definition getAllReports :: "env \<Rightarrow> outcome" where
  "getAllReports env = apiCall env ''GET'' ''/reports/all'' JUndefined"

definition updateReportStatus :: "env \<Rightarrow> string \<Rightarrow> string \<Rightarrow> jsval \<Rightarrow> outcome" where
  "updateReportStatus env uid reportId status =
     apiCall env ''PUT'' (''/reports/'' @ uid @ ''/'' @ reportId @ ''/status'')
       (JObj [(''status'', status)])"

definition generatePayroll :: "env \<Rightarrow> jsval \<Rightarrow> outcome" where
  "generatePayroll env data = apiCall env ''POST'' ''/payroll'' data"

definition getMyPayroll :: "env \<Rightarrow> outcome" where
  "getMyPayroll env = apiCall env ''GET'' ''/payroll/me'' JUndefined"

definition getEmployeePayroll :: "env \<Rightarrow> string \<Rightarrow> outcome" where
  "getEmployeePayroll env uid = apiCall env ''GET'' (''/payroll/'' @ uid) JUndefined"

definition getAllUsers :: "env \<Rightarrow> outcome" where
  "getAllUsers env = apiCall env ''GET'' ''/users'' JUndefined"

definition getMyProfile :: "env \<Rightarrow> outcome" where
  "getMyProfile env = apiCall env ''GET'' ''/users/me'' JUndefined"

definition createUser :: "env \<Rightarrow> jsval \<Rightarrow> outcome" where
  "createUser env data = apiCall env ''POST'' ''/users'' data"

definition updateUser :: "env \<Rightarrow> string \<Rightarrow> jsval \<Rightarrow> outcome" where
  "updateUser env uid data = apiCall env ''PUT'' (''/users/'' @ uid) data"

definition toggleUserStatus :: "env \<Rightarrow> string \<Rightarrow> jsval \<Rightarrow> outcome" where
  "toggleUserStatus env uid status =
     apiCall env ''PUT'' (''/users/'' @ uid @ ''/status'') (JObj [(''status'', status)])"

text \<open>
  A call of an exported operation, with its arguments, and the function that carries it
  out: a property of \<open>invoke env op\<close> for every \<open>op\<close> is a property of every export.
\<close>

datatype operation =
    VerifyToken
  | TimeIn jsval jsval
  | TimeOut jsval jsval jsval
  | GetMyAttendance
  | GetAllAttendance "string option"
  | BulkTimeOut jsval jsval
  | FileLeave jsval jsval jsval jsval
  | GetMyLeave
  | GetAllLeave
  | UpdateLeaveStatus string string jsval
  | FileOvertime jsval jsval jsval
  | GetMyOvertime
  | GetAllOvertime
  | UpdateOTStatus string string jsval
  | SubmitReport jsval jsval jsval
  | GetMyReports
  | GetAllReports
  | UpdateReportStatus string string jsval
  | GeneratePayroll jsval
  | GetMyPayroll
  | GetEmployeePayroll string
  | GetAllUsers
  | GetMyProfile
  | CreateUser jsval
  | UpdateUser string jsval
  | ToggleUserStatus string jsval

fun invoke :: "env \<Rightarrow> operation \<Rightarrow> outcome" where
  "invoke env VerifyToken = verifyToken env"
| "invoke env (TimeIn time_in status) = timeIn env time_in status"
| "invoke env (TimeOut time_out total_hours extra_hours) =
     timeOut env time_out total_hours extra_hours"
| "invoke env GetMyAttendance = getMyAttendance env"
| "invoke env (GetAllAttendance date) = getAllAttendance env date"
| "invoke env (BulkTimeOut date employee_uids) = bulkTimeOut env date employee_uids"
| "invoke env (FileLeave type start_date end_date reason) =
     fileLeave env type start_date end_date reason"
| "invoke env GetMyLeave = getMyLeave env"
| "invoke env GetAllLeave = getAllLeave env"
| "invoke env (UpdateLeaveStatus uid leaveId status) = updateLeaveStatus env uid leaveId status"
| "invoke env (FileOvertime date hours reason) = fileOvertime env date hours reason"
| "invoke env GetMyOvertime = getMyOvertime env"
| "invoke env GetAllOvertime = getAllOvertime env"
| "invoke env (UpdateOTStatus uid otId status) = updateOTStatus env uid otId status"
| "invoke env (SubmitReport week_start week_end summary) =
     submitReport env week_start week_end summary"
| "invoke env GetMyReports = getMyReports env"
| "invoke env GetAllReports = getAllReports env"
| "invoke env (UpdateReportStatus uid reportId status) =
     updateReportStatus env uid reportId status"
| "invoke env (GeneratePayroll data) = generatePayroll env data"
| "invoke env GetMyPayroll = getMyPayroll env"
| "invoke env (GetEmployeePayroll uid) = getEmployeePayroll env uid"
| "invoke env GetAllUsers = getAllUsers env"
| "invoke env GetMyProfile = getMyProfile env"
| "invoke env (CreateUser data) = createUser env data"
| "invoke env (UpdateUser uid data) = updateUser env uid data"
| "invoke env (ToggleUserStatus uid status) = toggleUserStatus env uid status"

subsection \<open>Concrete environments\<close>

text \<open>
  \<open>signed_in res\<close>: a user is signed in, the provider hands out the token \<^verbatim>\<open>t0\<close>, no
  \<^verbatim>\<open>VITE_API_URL\<close> is set and the backend answers every request with \<open>res\<close>.
  \<open>signed_out\<close>: nobody is signed in.
\<close>

definition signed_in :: "response \<Rightarrow> env" where
  "signed_in res =
     \<lparr> VITE_API_URL = None,
       currentUser = Some \<lparr> getIdToken = Inr ''t0'' \<rparr>,
       fetch = (\<lambda>req. Inr res) \<rparr>"

definition signed_out :: env where
  "signed_out =
     \<lparr> VITE_API_URL = None,
       currentUser = None,
       fetch = (\<lambda>req. Inl (Rejected ''offline'')) \<rparr>"

definition answer :: "nat \<Rightarrow> jsval \<Rightarrow> response" where
  "answer code data = \<lparr> res_status = code, res_json = Inr data \<rparr>"

section \<open>Properties of the request primitive\<close>

lemmas wrapper_defs =
  verifyToken_def timeIn_def timeOut_def getMyAttendance_def getAllAttendance_def
  bulkTimeOut_def fileLeave_def getMyLeave_def getAllLeave_def updateLeaveStatus_def
  fileOvertime_def getMyOvertime_def getAllOvertime_def updateOTStatus_def submitReport_def
  getMyReports_def getAllReports_def updateReportStatus_def generatePayroll_def
  getMyPayroll_def getEmployeePayroll_def getAllUsers_def getMyProfile_def createUser_def
  updateUser_def toggleUserStatus_def

lemma invoke_is_apiCall:
  "\<exists>m e b. m \<in> {''GET'', ''POST'', ''PUT''} \<and> (\<forall>env. invoke env op = apiCall env m e b)"
  by (cases op) (auto simp: wrapper_defs Let_def)

lemma getToken_no_session:
  "currentUser env = None \<Longrightarrow> getToken env = Inl (Error ''Not authenticated'')"
  by (simp add: getToken_def)

lemma getToken_signed_in: "getToken (signed_in res) = Inr ''t0''"
  by (simp add: getToken_def signed_in_def)

lemma API_URL_signed_in: "API_URL (signed_in res) = ''http://localhost:8000''"
  by (simp add: API_URL_def signed_in_def)

lemma fetch_signed_in: "fetch (signed_in res) req = Inr res"
  by (simp add: signed_in_def)

lemma apiCall_no_token:
  "getToken env = Inl e \<Longrightarrow> apiCall env m p b = (Inl e, [])"
  by (simp add: apiCall_def)

lemma apiCall_log:
  "getToken env = Inr t \<Longrightarrow>
   snd (apiCall env m p b) =
     [\<lparr> req_url = API_URL env @ p, req_method = m,
        req_headers = [(''Content-Type'', ''application/json''),
                       (''Authorization'', ''Bearer '' @ t)],
        req_body = (if truthy b then JSON_stringify b else None) \<rparr>]"
  by (cases b) (simp_all add: apiCall_def Let_def split: sum.splits)

lemma apiCall_response:
  assumes "snd (apiCall env m p b) = [req]" "fetch env req = Inr res" "res_json res = Inr data"
  shows "fst (apiCall env m p b) = (if ok res then Inr data else Inl (api_error data))"
  using assms by (auto simp add: apiCall_def Let_def split: sum.splits)

lemma invoke_response:
  assumes "snd (invoke env op) = [req]" "fetch env req = Inr res" "res_json res = Inr data"
  shows "fst (invoke env op) = (if ok res then Inr data else Inl (api_error data))"
proof -
  obtain m e b where "invoke env op = apiCall env m e b"
    using invoke_is_apiCall [of op] by blast
  with assms show ?thesis
    by (simp add: apiCall_response)
qed

lemma api_error_string:
  "map_of kvs ''detail'' = Some (JStr X) \<Longrightarrow> X \<noteq> [] \<Longrightarrow> api_error (JObj kvs) = Error X"
  by (simp add: api_error_def)

lemma api_error_absent:
  "map_of kvs ''detail'' = None \<Longrightarrow> api_error (JObj kvs) = Error ''API error''"
  by (simp add: api_error_def)

lemma api_error_falsy:
  "map_of kvs ''detail'' = Some d \<Longrightarrow> \<not> truthy d \<Longrightarrow> api_error (JObj kvs) = Error ''API error''"
  by (simp add: api_error_def)

lemma truthy_stringify: "truthy b \<Longrightarrow> JSON_stringify b \<noteq> None"
  by (cases b) simp_all

lemma join_snoc: "join sep (xs @ [s]) = (if xs = [] then s else join sep xs @ sep @ s)"
  by (induction sep xs rule: join.induct) simp_all

lemma stringify_properties_append:
  "stringify_properties (kvs @ kvs') = stringify_properties kvs @ stringify_properties kvs'"
  by (induction kvs) (auto split: option.splits)

lemma quote_extra_hours: \<open>quote ''extra_hours'' = ''"extra_hours"''\<close>
  by (simp add: quote_def escape_char_def)

lemma show_int_0: "show_int 0 = ''0''"
  by (simp add: show_int_def digit_char_def)

lemma stringify_last_extra_hours:
  \<open>\<exists>pre. JSON_stringify (JObj (kvs @ [(''extra_hours'', JNum 0)])) = Some (pre @ ''"extra_hours":0}'')\<close>
proof (cases "stringify_properties kvs = []")
  case True
  then have \<open>JSON_stringify (JObj (kvs @ [(''extra_hours'', JNum 0)])) = Some (''{'' @ ''"extra_hours":0}'')\<close>
    by (simp add: stringify_properties_append quote_extra_hours show_int_0)
  then show ?thesis by blast
next
  case False
  then have \<open>JSON_stringify (JObj (kvs @ [(''extra_hours'', JNum 0)])) =
      Some ((''{'' @ join '','' (stringify_properties kvs) @ '','') @ ''"extra_hours":0}'')\<close>
    by (simp add: stringify_properties_append join_snoc quote_extra_hours show_int_0)
  then show ?thesis by blast
qed

section \<open>The claims\<close>

text \<open>
  C1, as the code has it. For every exported operation: when the response to the
  request it issued has a status outside 200 to 299 and its body is JSON other than
  \<^verbatim>\<open>null\<close>, the call fails with an error whose message is the body's \<^verbatim>\<open>detail\<close> field
  when that field is a non-empty string, and exactly \<^verbatim>\<open>API error\<close> when the field is
  absent (also when the body is an array, a string, a number or a boolean) or falsy (the
  empty string, \<^verbatim>\<open>0\<close>, \<^verbatim>\<open>false\<close>, \<^verbatim>\<open>null\<close>). So the body \<^verbatim>\<open>{"detail": "X"}\<close> gives the message
  \<open>X\<close> for every non-empty string \<open>X\<close>.
\<close>

theorem api_error_message:
  assumes "snd (invoke env op) = [req]"
    and "fetch env req = Inr res"
    and "\<not> (200 \<le> res_status res \<and> res_status res \<le> 299)"
    and "res_json res = Inr data"
    and "data \<noteq> JNull" and "data \<noteq> JUndefined"
  shows "(\<forall>kvs X. data = JObj kvs \<and> map_of kvs ''detail'' = Some (JStr X) \<and> X \<noteq> [] \<longrightarrow>
            fst (invoke env op) = Inl (Error X)) \<and>
         (\<forall>kvs. data = JObj kvs \<and> map_of kvs ''detail'' = None \<longrightarrow>
            fst (invoke env op) = Inl (Error ''API error'')) \<and>
         (\<forall>kvs d. data = JObj kvs \<and> map_of kvs ''detail'' = Some d \<and> \<not> truthy d \<longrightarrow>
            fst (invoke env op) = Inl (Error ''API error'')) \<and>
         ((\<forall>kvs. data \<noteq> JObj kvs) \<longrightarrow> fst (invoke env op) = Inl (Error ''API error''))"
proof -
  have r: "fst (invoke env op) = Inl (api_error data)"
    using invoke_response [OF assms(1,2,4)] assms(3) by (simp add: ok_def)
  have "(\<forall>kvs. data \<noteq> JObj kvs) \<longrightarrow> api_error data = Error ''API error''"
    using assms(5,6) by (cases data) (simp_all add: api_error_def)
  with r show ?thesis
    by (auto simp add: api_error_string api_error_absent api_error_falsy)
qed

theorem api_error_message_witness:
  "fst (invoke (signed_in (answer 403 (JObj [(''detail'', JStr ''Admins only'')]))) GetAllUsers) =
     Inl (Error ''Admins only'') \<and>
   fst (invoke (signed_in (answer 500 (JObj [(''error'', JStr ''boom'')]))) GetAllUsers) =
     Inl (Error ''API error'') \<and>
   fst (invoke (signed_in (answer 404 (JObj [(''detail'', JNull)]))) GetAllUsers) =
     Inl (Error ''API error'') \<and>
   fst (invoke (signed_in (answer 502 (JArr [JStr ''Bad gateway'']))) GetAllUsers) =
     Inl (Error ''API error'')"
proof -
  have log: "\<And>res. \<exists>req. snd (invoke (signed_in res) GetAllUsers) = [req]"
    by (simp add: getAllUsers_def apiCall_log [OF getToken_signed_in])
  have a: "fst (invoke (signed_in (answer 403 (JObj [(''detail'', JStr ''Admins only'')])))
             GetAllUsers) = Inl (Error ''Admins only'')"
  proof -
    let ?data = "JObj [(''detail'', JStr ''Admins only'')]"
    let ?res = "answer 403 ?data"
    obtain req where l: "snd (invoke (signed_in ?res) GetAllUsers) = [req]"
      using log by blast
    have s: "\<not> (200 \<le> res_status ?res \<and> res_status ?res \<le> 299)"
      and j: "res_json ?res = Inr ?data"
      by (simp_all add: answer_def)
    have n: "?data \<noteq> JNull" and u: "?data \<noteq> JUndefined"
      by simp_all
    show ?thesis
      using api_error_message [OF l fetch_signed_in s j n u] by simp
  qed
  have b: "fst (invoke (signed_in (answer 500 (JObj [(''error'', JStr ''boom'')])))
             GetAllUsers) = Inl (Error ''API error'')"
  proof -
    let ?data = "JObj [(''error'', JStr ''boom'')]"
    let ?res = "answer 500 ?data"
    obtain req where l: "snd (invoke (signed_in ?res) GetAllUsers) = [req]"
      using log by blast
    have s: "\<not> (200 \<le> res_status ?res \<and> res_status ?res \<le> 299)"
      and j: "res_json ?res = Inr ?data"
      by (simp_all add: answer_def)
    have n: "?data \<noteq> JNull" and u: "?data \<noteq> JUndefined"
      by simp_all
    show ?thesis
      using api_error_message [OF l fetch_signed_in s j n u] by simp
  qed
  have c: "fst (invoke (signed_in (answer 404 (JObj [(''detail'', JNull)])))
             GetAllUsers) = Inl (Error ''API error'')"
  proof -
    let ?data = "JObj [(''detail'', JNull)]"
    let ?res = "answer 404 ?data"
    obtain req where l: "snd (invoke (signed_in ?res) GetAllUsers) = [req]"
      using log by blast
    have s: "\<not> (200 \<le> res_status ?res \<and> res_status ?res \<le> 299)"
      and j: "res_json ?res = Inr ?data"
      by (simp_all add: answer_def)
    have n: "?data \<noteq> JNull" and u: "?data \<noteq> JUndefined"
      by simp_all
    show ?thesis
      using api_error_message [OF l fetch_signed_in s j n u] by simp
  qed
  have d: "fst (invoke (signed_in (answer 502 (JArr [JStr ''Bad gateway''])))
             GetAllUsers) = Inl (Error ''API error'')"
  proof -
    let ?data = "JArr [JStr ''Bad gateway'']"
    let ?res = "answer 502 ?data"
    obtain req where l: "snd (invoke (signed_in ?res) GetAllUsers) = [req]"
      using log by blast
    have s: "\<not> (200 \<le> res_status ?res \<and> res_status ?res \<le> 299)"
      and j: "res_json ?res = Inr ?data"
      by (simp_all add: answer_def)
    have n: "?data \<noteq> JNull" and u: "?data \<noteq> JUndefined"
      by simp_all
    show ?thesis
      using api_error_message [OF l fetch_signed_in s j n u] by simp
  qed
  from a b c d show ?thesis
    by blast
qed

text \<open>
  The claim C1 as the specification words it fails at two inputs. At the empty string:
  the status is 400, the body is \<^verbatim>\<open>{"detail": ""}\<close>, and the message is \<^verbatim>\<open>API error\<close>, not
  the empty string. At the body \<^verbatim>\<open>null\<close>, which has no \<^verbatim>\<open>detail\<close> field: the status is 500,
  and reading \<^verbatim>\<open>data.detail\<close> throws the engine's TypeError, not an error with the message
  \<^verbatim>\<open>API error\<close>.
\<close>

theorem api_error_message_counterexample:
  "fst (invoke (signed_in (answer 400 (JObj [(''detail'', JStr '''')]))) VerifyToken) =
     Inl (Error ''API error'') \<and>
   fst (invoke (signed_in (answer 400 (JObj [(''detail'', JStr '''')]))) VerifyToken) \<noteq>
     Inl (Error '''') \<and>
   fst (invoke (signed_in (answer 500 JNull)) VerifyToken) = Inl TypeError \<and>
   fst (invoke (signed_in (answer 500 JNull)) VerifyToken) \<noteq> Inl (Error ''API error'')"
  by (simp add: verifyToken_def apiCall_def Let_def getToken_signed_in fetch_signed_in
      answer_def ok_def api_error_def)

text \<open>
  C2. For every exported operation: when the response to the request it issued has a
  status from 200 to 299 and its body parses as JSON, the call resolves with the parsed
  body, whatever its shape.
\<close>

theorem success_returns_body:
  assumes "snd (invoke env op) = [req]"
    and "fetch env req = Inr res"
    and "200 \<le> res_status res" and "res_status res \<le> 299"
    and "res_json res = Inr data"
  shows "fst (invoke env op) = Inr data"
  using invoke_response [OF assms(1,2,5)] assms(3,4)
  by (simp add: ok_def)

theorem success_returns_body_witness:
  "fst (invoke (signed_in (answer 201 (JArr [JNum 7, JNull, JObj [(''id'', JStr ''a1'')]])))
         (FileOvertime (JStr ''2024-05-02'') (JNum 2) (JStr ''release''))) =
   Inr (JArr [JNum 7, JNull, JObj [(''id'', JStr ''a1'')]])"
proof -
  let ?data = "JArr [JNum 7, JNull, JObj [(''id'', JStr ''a1'')]]"
  let ?env = "signed_in (answer 201 ?data)"
  let ?op = "FileOvertime (JStr ''2024-05-02'') (JNum 2) (JStr ''release'')"
  obtain req where log: "snd (invoke ?env ?op) = [req]"
    by (simp add: fileOvertime_def apiCall_log [OF getToken_signed_in])
  have f: "fetch ?env req = Inr (answer 201 ?data)"
    by (rule fetch_signed_in)
  have lo: "200 \<le> res_status (answer 201 ?data)" and hi: "res_status (answer 201 ?data) \<le> 299"
    by (simp_all add: answer_def)
  have j: "res_json (answer 201 ?data) = Inr ?data"
    by (simp add: answer_def)
  show ?thesis
    using success_returns_body [OF log f lo hi j] .
qed

text \<open>
  C3. For every exported operation: when nobody is signed in, the call fails with the
  error \<^verbatim>\<open>Not authenticated\<close>, and no request has been handed to \<^verbatim>\<open>fetch\<close>.
\<close>

theorem unauthenticated_before_fetch:
  "currentUser env = None \<Longrightarrow> invoke env op = (Inl (Error ''Not authenticated''), [])"
proof -
  assume "currentUser env = None"
  then have tok: "getToken env = Inl (Error ''Not authenticated'')"
    by (rule getToken_no_session)
  obtain m e b where "invoke env op = apiCall env m e b"
    using invoke_is_apiCall [of op] by blast
  with tok show ?thesis
    by (simp add: apiCall_no_token)
qed

theorem unauthenticated_before_fetch_witness:
  "invoke signed_out (UpdateUser ''u1'' (JObj [(''name'', JStr ''Ann'')])) =
     (Inl (Error ''Not authenticated''), [])"
proof -
  have h: "currentUser signed_out = None"
    by (simp add: signed_out_def)
  show ?thesis
    using unauthenticated_before_fetch [OF h] .
qed

text \<open>
  C4. For every exported operation and every token \<open>t\<close> that the identity provider
  resolves: the call issues one request, and its headers are exactly
  \<^verbatim>\<open>Content-Type: application/json\<close> and \<^verbatim>\<open>Authorization: Bearer t\<close>.
\<close>

theorem request_headers:
  assumes "getToken env = Inr t"
  shows "\<exists>req. snd (invoke env op) = [req] \<and>
           req_headers req = [(''Content-Type'', ''application/json''),
                              (''Authorization'', ''Bearer '' @ t)]"
proof -
  obtain m e b where "invoke env op = apiCall env m e b"
    using invoke_is_apiCall [of op] by blast
  then show ?thesis
    by (simp add: apiCall_log [OF assms])
qed

theorem request_headers_witness:
  "\<exists>req. snd (invoke (signed_in (answer 200 JNull)) GetMyLeave) = [req] \<and>
     req_headers req = [(''Content-Type'', ''application/json''),
                        (''Authorization'', ''Bearer t0'')]"
  using request_headers [OF getToken_signed_in, of "answer 200 JNull" GetMyLeave]
  by simp

text \<open>
  C5. Every exported operation is a call of the request primitive with a method out of
  GET, POST and PUT (none uses DELETE).
\<close>

theorem wrapper_methods:
  "\<exists>m e b. m \<in> {''GET'', ''POST'', ''PUT''} \<and> m \<noteq> ''DELETE'' \<and>
     (\<forall>env. invoke env op = apiCall env m e b)"
proof -
  obtain m e b where m: "m \<in> {''GET'', ''POST'', ''PUT''}"
    and call: "\<forall>env. invoke env op = apiCall env m e b"
    using invoke_is_apiCall [of op] by blast
  from m have "m \<noteq> ''DELETE''"
    by auto
  with m call show ?thesis
    by blast
qed

text \<open>
  C6, as the code has it. With the token resolved, \<open>getAllAttendance\<close> called with a
  non-empty date string \<open>d\<close> issues one GET request, to the path
  \<^verbatim>\<open>/attendance/all?date=\<close> followed by \<open>d\<close> (the suffix once); called with no date it
  issues one GET request to \<^verbatim>\<open>/attendance/all\<close>, with no query string.
\<close>

theorem getAllAttendance_path:
  assumes "getToken env = Inr t"
  shows "(d \<noteq> [] \<longrightarrow>
            (\<exists>req. snd (getAllAttendance env (Some d)) = [req] \<and> req_method req = ''GET'' \<and>
               req_url req = API_URL env @ ''/attendance/all?date='' @ d)) \<and>
         (\<exists>req. snd (getAllAttendance env None) = [req] \<and> req_method req = ''GET'' \<and>
            req_url req = API_URL env @ ''/attendance/all'')"
  by (simp add: getAllAttendance_def apiCall_log [OF assms])

theorem getAllAttendance_path_witness:
  "(\<exists>req. snd (getAllAttendance (signed_in (answer 200 (JArr []))) (Some ''2024-05-02'')) = [req] \<and>
      req_method req = ''GET'' \<and>
      req_url req = ''http://localhost:8000/attendance/all?date=2024-05-02'') \<and>
   (\<exists>req. snd (getAllAttendance (signed_in (answer 200 (JArr []))) None) = [req] \<and>
      req_method req = ''GET'' \<and>
      req_url req = ''http://localhost:8000/attendance/all'')"
proof -
  have tok: "getToken (signed_in (answer 200 (JArr []))) = Inr ''t0''"
    by (rule getToken_signed_in)
  have d: "''2024-05-02'' \<noteq> []"
    by simp
  show ?thesis
    using getAllAttendance_path [OF tok, of "''2024-05-02''"] d
    by (simp add: API_URL_signed_in)
qed

text \<open>
  The claim C6 as the specification words it fails at the empty string: called with the
  date argument \<^verbatim>\<open>""\<close>, the request goes to \<^verbatim>\<open>/attendance/all\<close>, not to
  \<^verbatim>\<open>/attendance/all?date=\<close>.
\<close>

theorem getAllAttendance_path_counterexample:
  "map req_url (snd (getAllAttendance (signed_in (answer 200 (JArr []))) (Some ''''))) =
     [''http://localhost:8000/attendance/all''] \<and>
   map req_url (snd (getAllAttendance (signed_in (answer 200 (JArr []))) (Some ''''))) \<noteq>
     [''http://localhost:8000/attendance/all?date='']"
  by (simp add: getAllAttendance_def apiCall_log [OF getToken_signed_in] API_URL_signed_in)

text \<open>
  C7. \<open>timeOut\<close> called with two arguments, the token resolved, issues one request whose
  body is the JSON text of the object with the given \<open>time_out\<close> and \<open>total_hours\<close> and
  with \<open>extra_hours\<close> 0; the text ends with the field \<^verbatim>\<open>"extra_hours":0\<close>.
\<close>

theorem timeOut_default_extra_hours:
  assumes "getToken env = Inr t"
  shows \<open>\<exists>req. snd (timeOut env time_out total_hours JUndefined) = [req] \<and>
     req_body req = JSON_stringify (JObj [(''time_out'', time_out), (''total_hours'', total_hours),
                                         (''extra_hours'', JNum 0)]) \<and>
     (\<exists>pre. req_body req = Some (pre @ ''"extra_hours":0}''))\<close>
proof -
  let ?obj = "JObj ([(''time_out'', time_out), (''total_hours'', total_hours)] @
                     [(''extra_hours'', JNum 0)])"
  have log: "snd (timeOut env time_out total_hours JUndefined) =
      [\<lparr> req_url = API_URL env @ ''/attendance/time-out'', req_method = ''POST'',
         req_headers = [(''Content-Type'', ''application/json''),
                        (''Authorization'', ''Bearer '' @ t)],
         req_body = JSON_stringify ?obj \<rparr>]"
    by (simp add: timeOut_def apiCall_log [OF assms])
  obtain pre where \<open>JSON_stringify ?obj = Some (pre @ ''"extra_hours":0}'')\<close>
    using stringify_last_extra_hours by blast
  with log show ?thesis
    by simp
qed

theorem timeOut_default_extra_hours_witness:
  \<open>\<exists>req. snd (timeOut (signed_in (answer 200 JNull)) (JStr ''17:00'') (JNum 8) JUndefined) = [req] \<and>
     req_body req = Some ''{"time_out":"17:00","total_hours":8,"extra_hours":0}''\<close>
proof -
  have s: \<open>JSON_stringify (JObj [(''time_out'', JStr ''17:00''), (''total_hours'', JNum 8),
                                 (''extra_hours'', JNum 0)]) =
      Some ''{"time_out":"17:00","total_hours":8,"extra_hours":0}''\<close>
    by (simp add: quote_def escape_char_def show_int_def digit_char_def)
  from timeOut_default_extra_hours [OF getToken_signed_in, of "answer 200 JNull" "JStr ''17:00''" "JNum 8"]
  show ?thesis
    unfolding s by blast
qed

text \<open>
  C8. \<open>timeIn("09:00", "present")\<close>, with the token \<open>t\<close> resolved, issues exactly one
  request: POST to \<^verbatim>\<open>/attendance/time-in\<close> under the base address, the two standard
  headers, and the body \<^verbatim>\<open>{"time_in":"09:00","status":"present"}\<close>.
\<close>

theorem timeIn_example:
  assumes "getToken env = Inr t"
  shows \<open>snd (timeIn env (JStr ''09:00'') (JStr ''present'')) =
     [\<lparr> req_url = API_URL env @ ''/attendance/time-in'',
        req_method = ''POST'',
        req_headers = [(''Content-Type'', ''application/json''),
                       (''Authorization'', ''Bearer '' @ t)],
        req_body = Some ''{"time_in":"09:00","status":"present"}'' \<rparr>]\<close>
  by (simp add: timeIn_def apiCall_log [OF assms] quote_def escape_char_def)

theorem timeIn_example_witness:
  \<open>snd (timeIn (signed_in (answer 200 (JObj []))) (JStr ''09:00'') (JStr ''present'')) =
     [\<lparr> req_url = ''http://localhost:8000/attendance/time-in'',
        req_method = ''POST'',
        req_headers = [(''Content-Type'', ''application/json''),
                       (''Authorization'', ''Bearer t0'')],
        req_body = Some ''{"time_in":"09:00","status":"present"}'' \<rparr>]\<close>
  using timeIn_example [OF getToken_signed_in, of "answer 200 (JObj [])"]
  by (simp add: API_URL_signed_in)

text \<open>
  C9. \<open>getAllAttendance\<close> called with the empty string as its date, the token resolved,
  issues one GET request, to the path \<^verbatim>\<open>/attendance/all\<close> under the base address with no
  query string; the whole call (outcome and request) is that of the call with no date.
\<close>

theorem getAllAttendance_empty_date:
  assumes "getToken env = Inr t"
  shows "(\<exists>req. snd (getAllAttendance env (Some '''')) = [req] \<and> req_method req = ''GET'' \<and>
            req_url req = API_URL env @ ''/attendance/all'' \<and> req_body req = None) \<and>
         getAllAttendance env (Some '''') = getAllAttendance env None"
  by (simp add: getAllAttendance_def apiCall_log [OF assms])

theorem getAllAttendance_empty_date_witness:
  "(\<exists>req. snd (getAllAttendance (signed_in (answer 200 (JArr []))) (Some '''')) = [req] \<and>
      req_method req = ''GET'' \<and>
      req_url req = ''http://localhost:8000/attendance/all'' \<and> req_body req = None) \<and>
   getAllAttendance (signed_in (answer 200 (JArr []))) (Some '''') =
     getAllAttendance (signed_in (answer 200 (JArr []))) None"
proof -
  have tok: "getToken (signed_in (answer 200 (JArr []))) = Inr ''t0''"
    by (rule getToken_signed_in)
  have url: "API_URL (signed_in (answer 200 (JArr []))) @ ''/attendance/all'' =
      ''http://localhost:8000/attendance/all''"
    by (simp add: API_URL_signed_in)
  show ?thesis
    using getAllAttendance_empty_date [OF tok]
    unfolding url .
qed

text \<open>
  C10. With the token resolved, the request primitive issues one request, which has a
  body exactly when the body argument is truthy, and then the body is its JSON text;
  for a falsy argument (absent, \<^verbatim>\<open>null\<close>, \<^verbatim>\<open>0\<close>, the empty string, \<^verbatim>\<open>false\<close>) the request has
  no body, so \<open>generatePayroll\<close>, \<open>createUser\<close> and \<open>updateUser\<close> called with a falsy
  payload issue requests without a body.
\<close>

theorem body_iff_truthy:
  assumes "getToken env = Inr t"
  shows "(\<exists>req. snd (apiCall env m p b) = [req] \<and>
            (req_body req \<noteq> None) = truthy b \<and>
            (truthy b \<longrightarrow> req_body req = JSON_stringify b)) \<and>
         (\<not> truthy b \<longrightarrow>
            (\<exists>req. snd (generatePayroll env b) = [req] \<and> req_body req = None) \<and>
            (\<exists>req. snd (createUser env b) = [req] \<and> req_body req = None) \<and>
            (\<exists>req. snd (updateUser env uid b) = [req] \<and> req_body req = None))"
proof (intro conjI impI)
  show "\<exists>req. snd (apiCall env m p b) = [req] \<and>
          (req_body req \<noteq> None) = truthy b \<and>
          (truthy b \<longrightarrow> req_body req = JSON_stringify b)"
    using truthy_stringify [of b] by (simp add: apiCall_log [OF assms])
next
  assume "\<not> truthy b"
  then show "\<exists>req. snd (generatePayroll env b) = [req] \<and> req_body req = None"
    by (simp add: generatePayroll_def apiCall_log [OF assms])
next
  assume "\<not> truthy b"
  then show "\<exists>req. snd (createUser env b) = [req] \<and> req_body req = None"
    by (simp add: createUser_def apiCall_log [OF assms])
next
  assume "\<not> truthy b"
  then show "\<exists>req. snd (updateUser env uid b) = [req] \<and> req_body req = None"
    by (simp add: updateUser_def apiCall_log [OF assms])
qed

theorem body_iff_truthy_witness:
  \<open>(\<exists>req. snd (apiCall (signed_in (answer 200 JNull)) ''POST'' ''/users'' (JStr ''x'')) = [req] \<and>
      req_body req = Some ''"x"'') \<and>
   (\<exists>req. snd (apiCall (signed_in (answer 200 JNull)) ''POST'' ''/users'' (JNum 0)) = [req] \<and>
      req_body req = None) \<and>
   (\<exists>req. snd (generatePayroll (signed_in (answer 200 JNull)) (JNum 0)) = [req] \<and>
      req_body req = None) \<and>
   (\<exists>req. snd (createUser (signed_in (answer 200 JNull)) (JNum 0)) = [req] \<and>
      req_body req = None) \<and>
   (\<exists>req. snd (updateUser (signed_in (answer 200 JNull)) ''u1'' (JNum 0)) = [req] \<and>
      req_body req = None)\<close>
proof -
  let ?env = "signed_in (answer 200 JNull)"
  have tok: "getToken ?env = Inr ''t0''"
    by (rule getToken_signed_in)
  have t: "truthy (JStr ''x'')" and f: "\<not> truthy (JNum 0)"
    by simp_all
  have s: \<open>JSON_stringify (JStr ''x'') = Some ''"x"''\<close>
    by (simp add: quote_def escape_char_def)
  from body_iff_truthy [OF tok, of "''POST''" "''/users''" "JStr ''x''" "''u1''"] t s
  have a: \<open>\<exists>req. snd (apiCall ?env ''POST'' ''/users'' (JStr ''x'')) = [req] \<and>
      req_body req = Some ''"x"''\<close>
    by auto
  from body_iff_truthy [OF tok, of "''POST''" "''/users''" "JNum 0" "''u1''"] f
  have b: "(\<exists>req. snd (apiCall ?env ''POST'' ''/users'' (JNum 0)) = [req] \<and> req_body req = None) \<and>
      (\<exists>req. snd (generatePayroll ?env (JNum 0)) = [req] \<and> req_body req = None) \<and>
      (\<exists>req. snd (createUser ?env (JNum 0)) = [req] \<and> req_body req = None) \<and>
      (\<exists>req. snd (updateUser ?env ''u1'' (JNum 0)) = [req] \<and> req_body req = None)"
    by auto
  from a b show ?thesis
    by blast
qed

end
